theory Spec2Isabelle
  imports Complex_Main "HOL-Library.AList" "HOL-Library.Sublist"
begin

section \<open>JSON documents and the Python operations the cache applies to them\<close>

text \<open>
  \<^verbatim>\<open>json.load\<close> and \<^verbatim>\<open>requests.Response.json\<close> return a Python value built from
  \<^verbatim>\<open>None\<close>, booleans, numbers, strings, lists and dicts. A dict is an association list
  with distinct keys, in insertion order (numbers are integers here; no operation of
  the cache looks inside a float).
\<close>

datatype json =
    JNull
  | JBool bool
  | JNum int
  | JStr string
  | JArr "json list"
  | JObj "(string \<times> json) list"

text \<open>
  The exceptions that can leave \<^verbatim>\<open>Github._get_data\<close>. \<^verbatim>\<open>github.py\<close> declares
  \<^verbatim>\<open>GithubError(IOError)\<close> and \<^verbatim>\<open>GithubConnectionError(GithubError)\<close>; the others are
  Python's own, raised by an operation on a value of the wrong type or by
  \<^verbatim>\<open>r.json()\<close> on a body that is not JSON.
\<close>

datatype exn = GithubError | GithubConnectionError | TypeError | KeyError | ValueError

text \<open>\<^verbatim>\<open>key in value\<close> for a string key: dict membership, list membership, substring.\<close>

fun py_in :: "string \<Rightarrow> json \<Rightarrow> exn + bool" where
  "py_in k (JObj kvs) = Inr (k \<in> fst ` set kvs)"
| "py_in k (JArr xs) = Inr (JStr k \<in> set xs)"
| "py_in k (JStr s) = Inr (sublist k s)"
| "py_in k JNull = Inl TypeError"
| "py_in k (JBool b) = Inl TypeError"
| "py_in k (JNum n) = Inl TypeError"

text \<open>\<^verbatim>\<open>value[key]\<close> for a string key: only a dict can be indexed by a string.\<close>

fun py_getitem :: "json \<Rightarrow> string \<Rightarrow> exn + json" where
  "py_getitem (JObj kvs) k = (case map_of kvs k of None \<Rightarrow> Inl KeyError | Some v \<Rightarrow> Inr v)"
| "py_getitem JNull k = Inl TypeError"
| "py_getitem (JBool b) k = Inl TypeError"
| "py_getitem (JNum n) k = Inl TypeError"
| "py_getitem (JStr s) k = Inl TypeError"
| "py_getitem (JArr xs) k = Inl TypeError"

text \<open>\<^verbatim>\<open>value[key] = v\<close> for a string key.\<close>

fun py_setitem :: "json \<Rightarrow> string \<Rightarrow> json \<Rightarrow> exn + json" where
  "py_setitem (JObj kvs) k v = Inr (JObj (AList.update k v kvs))"
| "py_setitem JNull k v = Inl TypeError"
| "py_setitem (JBool b) k v = Inl TypeError"
| "py_setitem (JNum n) k v = Inl TypeError"
| "py_setitem (JStr s) k v = Inl TypeError"
| "py_setitem (JArr xs) k v = Inl TypeError"

text \<open>The right operand of \<^verbatim>\<open>int - value\<close>: an integer, or a boolean (Python's
  \<^verbatim>\<open>bool\<close> is a subclass of \<^verbatim>\<open>int\<close>).\<close>

fun py_int :: "json \<Rightarrow> exn + int" where
  "py_int (JNum n) = Inr n"
| "py_int (JBool b) = Inr (if b then 1 else 0)"
| "py_int JNull = Inl TypeError"
| "py_int (JStr s) = Inl TypeError"
| "py_int (JArr xs) = Inl TypeError"
| "py_int (JObj kvs) = Inl TypeError"

section \<open>The cache directory of one repository (\<^verbatim>\<open>github.py\<close>, class \<^verbatim>\<open>Github\<close>)\<close>

text \<open>
  A file of the cache directory \<^verbatim>\<open>self._path\<close> holds a JSON document or text that
  \<^verbatim>\<open>json.load\<close> rejects (the zero-length error marker is such a file). Files are
  addressed by their name below \<^verbatim>\<open>self._path\<close>: the data file of a key is the key itself,
  its error marker is the key followed by \<^verbatim>\<open>_ERROR_GITHUB\<close>, the journal is
  \<^verbatim>\<open>METADATA\<close>. Data keys are taken to be usable file names and the directory to be
  readable and writable: \<^verbatim>\<open>open\<close>, \<^verbatim>\<open>os.remove\<close> and \<^verbatim>\<open>json.dump\<close> succeed.
\<close>

datatype content = Json json | Unparsable

text \<open>
  The state a call works on: the directory, the object's \<^verbatim>\<open>self._cache_time\<close>, and the
  number of \<^verbatim>\<open>requests.get\<close> calls made so far. The lock files are left out: the calls
  modelled here are those of one process, one after the other.
\<close>

record cache =
  files :: "string \<rightharpoonup> content"
  cache_time :: json
  requests :: nat

text \<open>What \<^verbatim>\<open>requests.get\<close> does: it raises, or returns a response with a status code and
  a body (\<^verbatim>\<open>None\<close> when \<^verbatim>\<open>r.json()\<close> raises on it).\<close>

datatype response = NoConnection | Response int "json option"

text \<open>
  What a call reads from outside the object: \<^verbatim>\<open>datetime.date.today().toordinal()\<close>, the
  two entries of \<^verbatim>\<open>configserver\<close>, and the remote, which answers the \<open>n\<close>-th request of
  the run with \<open>network n\<close>.
\<close>

record env =
  today :: int
  maximum_cache_age :: int
  force_cache_update :: bool
  network :: "nat \<Rightarrow> response"

definition path_exists :: "cache \<Rightarrow> string \<Rightarrow> bool" where
  "path_exists c p = (files c p \<noteq> None)"

definition error_marker :: "string \<Rightarrow> string" where
  "error_marker data_key = data_key @ ''_ERROR_GITHUB''"

text \<open>\<^verbatim>\<open>_read_metadata\<close>: a missing journal leaves \<^verbatim>\<open>self._cache_time\<close> as it is, an
  unreadable one resets it to the empty dict.\<close>

definition read_metadata :: "cache \<Rightarrow> cache" where
  "read_metadata c =
     (case files c ''METADATA'' of
        None \<Rightarrow> c
      | Some (Json j) \<Rightarrow> c\<lparr>cache_time := j\<rparr>
      | Some Unparsable \<Rightarrow> c\<lparr>cache_time := JObj []\<rparr>)"

text \<open>\<^verbatim>\<open>_save_metadata\<close>.\<close>

definition save_metadata :: "cache \<Rightarrow> cache" where
  "save_metadata c = c\<lparr>files := (files c)(''METADATA'' \<mapsto> Json (cache_time c))\<rparr>"

text \<open>The first statement of \<^verbatim>\<open>_test_cache_valid\<close> after the journal is read:
  \<^verbatim>\<open>age = abs(today - self._cache_time[data_key]) if data_key in self._cache_time
        else maximum_cache_age + 1\<close>.\<close>

definition cache_age :: "env \<Rightarrow> json \<Rightarrow> string \<Rightarrow> exn + int" where
  "cache_age e j data_key =
     (case py_in data_key j of
        Inl ex \<Rightarrow> Inl ex
      | Inr False \<Rightarrow> Inr (maximum_cache_age e + 1)
      | Inr True \<Rightarrow>
          (case py_getitem j data_key of
             Inl ex \<Rightarrow> Inl ex
           | Inr v \<Rightarrow>
               (case py_int v of
                  Inl ex \<Rightarrow> Inl ex
                | Inr d \<Rightarrow> Inr \<bar>today e - d\<bar>)))"

text \<open>\<^verbatim>\<open>_test_cache_valid\<close>: the state after reading the journal, and the value returned
  or the exception raised.\<close>

definition test_cache_valid :: "env \<Rightarrow> cache \<Rightarrow> string \<Rightarrow> cache \<times> (exn + bool)" where
  "test_cache_valid e c data_key =
     (let c1 = read_metadata c in
      case cache_age e (cache_time c1) data_key of
        Inl ex \<Rightarrow> (c1, Inl ex)
      | Inr age \<Rightarrow>
          (c1, Inr ((path_exists c1 data_key \<or> path_exists c1 (error_marker data_key))
                    \<and> \<not> force_cache_update e
                    \<and> age < maximum_cache_age e)))"

text \<open>The test on a non-200 body: \<^verbatim>\<open>'message' in data\<close> and
  \<^verbatim>\<open>'API rate limit exceeded' in data['message']\<close>.\<close>

definition rate_limited :: "json \<Rightarrow> exn + bool" where
  "rate_limited data =
     (case py_in ''message'' data of
        Inl ex \<Rightarrow> Inl ex
      | Inr False \<Rightarrow> Inr False
      | Inr True \<Rightarrow>
          (case py_getitem data ''message'' of
             Inl ex \<Rightarrow> Inl ex
           | Inr msg \<Rightarrow> py_in ''API rate limit exceeded'' msg))"

text \<open>
  The part of \<^verbatim>\<open>_get_data\<close> below the comment \<^verbatim>\<open># Update cache\<close>: remove the error
  marker, send the request, and store what came back. The bare \<^verbatim>\<open>except\<close> around the
  write of a payload swallows the exception of the journal stamp; the stamp after the
  error marker is outside any \<^verbatim>\<open>try\<close>.
\<close>

definition update_cache :: "env \<Rightarrow> cache \<Rightarrow> string \<Rightarrow> cache \<times> (exn + json)" where
  "update_cache e c data_key =
     (let c1 = (if path_exists c (error_marker data_key)
                then c\<lparr>files := (files c)(error_marker data_key := None)\<rparr> else c);
          r = network e (requests c1);
          c2 = c1\<lparr>requests := Suc (requests c1)\<rparr>
      in case r of
           NoConnection \<Rightarrow> (c2, Inl GithubError)
         | Response status_code body \<Rightarrow>
             if status_code \<noteq> 200 then
               (case body of
                  None \<Rightarrow> (c2, Inl ValueError)
                | Some data \<Rightarrow>
                    (case rate_limited data of
                       Inl ex \<Rightarrow> (c2, Inl ex)
                     | Inr True \<Rightarrow> (c2, Inl GithubError)
                     | Inr False \<Rightarrow>
                         (let c3 = c2\<lparr>files := (files c2)(error_marker data_key \<mapsto> Unparsable)\<rparr>
                          in case py_setitem (cache_time c3) data_key (JNum (today e)) of
                               Inl ex \<Rightarrow> (c3, Inl ex)
                             | Inr j \<Rightarrow> (save_metadata (c3\<lparr>cache_time := j\<rparr>), Inl GithubError))))
             else
               (case body of
                  None \<Rightarrow> (c2, Inl ValueError)
                | Some data \<Rightarrow>
                    (let c3 = c2\<lparr>files := (files c2)(data_key \<mapsto> Json data)\<rparr>
                     in case py_setitem (cache_time c3) data_key (JNum (today e)) of
                          Inl ex \<Rightarrow> (c3, Inr data)
                        | Inr j \<Rightarrow> (save_metadata (c3\<lparr>cache_time := j\<rparr>), Inr data))))"

text \<open>\<^verbatim>\<open>_get_data\<close>: serve the cached error or the cached payload while the entry is
  valid, otherwise (or when the data file cannot be loaded) update the cache.\<close>

definition get_data :: "env \<Rightarrow> cache \<Rightarrow> string \<Rightarrow> cache \<times> (exn + json)" where
  "get_data e c data_key =
     (case test_cache_valid e c data_key of
        (c1, Inl ex) \<Rightarrow> (c1, Inl ex)
      | (c1, Inr False) \<Rightarrow> update_cache e c1 data_key
      | (c1, Inr True) \<Rightarrow>
          if path_exists c1 (error_marker data_key) then (c1, Inl GithubError)
          else (case files c1 data_key of
                  Some (Json data) \<Rightarrow> (c1, Inr data)
                | Some Unparsable \<Rightarrow> update_cache e c1 data_key
                | None \<Rightarrow> update_cache e c1 data_key))"

text \<open>The validity test in the words of the specification: the recorded age of an
  entry is the distance in days between today and the day the journal holds for it.\<close>

definition recorded_age :: "env \<Rightarrow> cache \<Rightarrow> string \<Rightarrow> int option" where
  "recorded_age e c data_key =
     (case cache_time (read_metadata c) of
        JObj kvs \<Rightarrow>
          (case map_of kvs data_key of
             None \<Rightarrow> None
           | Some v \<Rightarrow> (case py_int v of Inl ex \<Rightarrow> None | Inr d \<Rightarrow> Some \<bar>today e - d\<bar>))
      | JNull \<Rightarrow> None | JBool b \<Rightarrow> None | JNum n \<Rightarrow> None | JStr s \<Rightarrow> None | JArr xs \<Rightarrow> None)"

definition spec_valid :: "env \<Rightarrow> cache \<Rightarrow> string \<Rightarrow> bool" where
  "spec_valid e c data_key =
     ((path_exists c data_key \<or> path_exists c (error_marker data_key))
      \<and> \<not> force_cache_update e
      \<and> (case recorded_age e c data_key of None \<Rightarrow> False | Some age \<Rightarrow> age < maximum_cache_age e))"

section \<open>Notions the statements below use\<close>

text \<open>The journal as the next call will see it: \<^verbatim>\<open>self._cache_time\<close> after
  \<^verbatim>\<open>_read_metadata\<close>. The journal \<^verbatim>\<open>_save_metadata\<close> writes is a dict; a
  \<^verbatim>\<open>METADATA\<close> file holding another JSON document makes the stamp
  \<^verbatim>\<open>self._cache_time[data_key] = ...\<close> raise.\<close>

fun is_dict :: "json \<Rightarrow> bool" where
  "is_dict (JObj kvs) = True"
| "is_dict JNull = False"
| "is_dict (JBool b) = False"
| "is_dict (JNum n) = False"
| "is_dict (JStr s) = False"
| "is_dict (JArr xs) = False"

definition journal :: "cache \<Rightarrow> json" where
  "journal c = cache_time (read_metadata c)"

text \<open>The entry the journal file on disk holds for a key.\<close>

definition journal_entry :: "cache \<Rightarrow> string \<Rightarrow> json option" where
  "journal_entry c data_key =
     (case files c ''METADATA'' of
        Some (Json (JObj kvs)) \<Rightarrow> map_of kvs data_key
      | _ \<Rightarrow> None)"

text \<open>
  The two kinds of non-200 answer \<^verbatim>\<open>_get_data\<close> tells apart: the one it stores as an
  error marker (any JSON body that does not carry the rate-limit message), and the
  rate-limit report.
\<close>

definition definitive_error :: "response \<Rightarrow> bool" where
  "definitive_error r =
     (case r of
        NoConnection \<Rightarrow> False
      | Response status_code body \<Rightarrow>
          status_code \<noteq> 200 \<and>
          (case body of None \<Rightarrow> False | Some data \<Rightarrow> rate_limited data = Inr False))"

definition rate_limit_reported :: "response \<Rightarrow> bool" where
  "rate_limit_reported r =
     (case r of
        NoConnection \<Rightarrow> False
      | Response status_code body \<Rightarrow>
          status_code \<noteq> 200 \<and>
          (case body of None \<Rightarrow> False | Some data \<Rightarrow> rate_limited data = Inr True))"

section \<open>Stale-lock recovery (\<^verbatim>\<open>utility.py\<close>, \<^verbatim>\<open>check_stale_lock\<close>)\<close>

text \<open>The first three lines of \<^verbatim>\<open>check_stale_lock\<close>, \<^verbatim>\<open>batch\<close> and \<^verbatim>\<open>learning\<close>:
  the configured number of workers, or the number of processors when none is
  configured.\<close>

definition worker_number :: "int \<Rightarrow> int \<Rightarrow> int" where
  "worker_number cpu_count number_worker = (if number_worker > 0 then number_worker else cpu_count)"

text \<open>
  Whether \<^verbatim>\<open>LockFile.acquire(timeout=...)\<close> gets the lock depends on the other
  processes, so each call's outcome is an input of the model: the lock is acquired,
  \<^verbatim>\<open>lockfile.LockTimeout\<close> is raised, or another exception of \<^verbatim>\<open>lockfile\<close> is. What the
  procedure does is the list of its calls on the two locks, in order.
\<close>

datatype acquire_outcome = Acquired | LockTimeout | LockFailed

datatype lock_exn = LockFailedError | NotLocked

datatype lock_op = Acquire string real | Release string | Break_lock string

definition stale_gate :: "string \<Rightarrow> string" where
  "stale_gate lock_path = lock_path @ ''_STALE''"

text \<open>
  \<^verbatim>\<open>time + time / 5 * worker + (time / 2) * random.random()\<close>. Python computes each
  operation in double precision: \<open>fl\<close> is the rounding of the exact result of one
  operation to the double Python stores, an input of the model, so what is proved of
  the timeout holds whatever the rounding is.
\<close>

definition gate_timeout :: "(real \<Rightarrow> real) \<Rightarrow> real \<Rightarrow> int \<Rightarrow> real \<Rightarrow> real" where
  "gate_timeout fl time worker random =
     fl (fl (time + fl (fl (time / 5) * real_of_int worker)) + fl (fl (time / 2) * random))"

text \<open>
  The loop \<^verbatim>\<open>while not test_lock.i_am_locking()\<close>. The boolean is the value of
  \<^verbatim>\<open>test_lock.i_am_locking()\<close> when the condition is tested: the loop is not entered
  when the process holds the gate already, and it ends when an attempt acquires it.
  Each round draws a random number and tries the gate; the list gives, round by round,
  the number drawn and the outcome. A timeout breaks the gate and tries again, another
  exception is logged and the loop tries again. A list that ends before the gate is
  acquired describes a run still inside the loop, and the result is \<open>None\<close>.
\<close>

fun acquire_gate ::
  "(real \<Rightarrow> real) \<Rightarrow> string \<Rightarrow> real \<Rightarrow> int \<Rightarrow> bool \<Rightarrow> (real \<times> acquire_outcome) list
   \<Rightarrow> lock_op list option" where
  "acquire_gate fl lock_path time worker True gate = Some []"
| "acquire_gate fl lock_path time worker False [] = None"
| "acquire_gate fl lock_path time worker False ((random, outcome) # rest) =
     (let attempt = Acquire (stale_gate lock_path) (gate_timeout fl time worker random) in
      case outcome of
        Acquired \<Rightarrow>
          map_option (\<lambda>ops. attempt # ops) (acquire_gate fl lock_path time worker True rest)
      | LockTimeout \<Rightarrow>
          map_option (\<lambda>ops. attempt # Break_lock (stale_gate lock_path) # ops)
            (acquire_gate fl lock_path time worker False rest)
      | LockFailed \<Rightarrow>
          map_option (\<lambda>ops. attempt # ops) (acquire_gate fl lock_path time worker False rest))"

text \<open>
  The rest of the procedure: \<^verbatim>\<open>lock.acquire(timeout=time)\<close> and \<^verbatim>\<open>lock.release()\<close>
  under \<^verbatim>\<open>except lockfile.LockTimeout\<close>, where the lock is broken, and then the release
  of the gate. Only \<^verbatim>\<open>LockTimeout\<close> is caught there: another exception of the acquire,
  or \<^verbatim>\<open>NotLocked\<close> from the release (\<open>released\<close> is false), leaves the procedure with
  the gate still held.
\<close>

definition probe_lock ::
  "string \<Rightarrow> real \<Rightarrow> acquire_outcome \<Rightarrow> bool \<Rightarrow> lock_op list \<times> lock_exn option" where
  "probe_lock lock_path time outcome released =
     (case outcome of
        Acquired \<Rightarrow>
          if released
          then ([Acquire lock_path time, Release lock_path, Release (stale_gate lock_path)], None)
          else ([Acquire lock_path time, Release lock_path], Some NotLocked)
      | LockTimeout \<Rightarrow>
          ([Acquire lock_path time, Break_lock lock_path, Release (stale_gate lock_path)], None)
      | LockFailed \<Rightarrow> ([Acquire lock_path time], Some LockFailedError))"

text \<open>\<^verbatim>\<open>check_stale_lock\<close>; \<open>holding\<close> is \<^verbatim>\<open>test_lock.i_am_locking()\<close> on entry.\<close>

definition check_stale_lock ::
  "(real \<Rightarrow> real) \<Rightarrow> int \<Rightarrow> int \<Rightarrow> string \<Rightarrow> real \<Rightarrow> bool \<Rightarrow> (real \<times> acquire_outcome) list
   \<Rightarrow> acquire_outcome \<Rightarrow> bool \<Rightarrow> (lock_op list \<times> lock_exn option) option" where
  "check_stale_lock fl cpu_count number_worker lock_path time holding gate outcome released =
     (let worker = worker_number cpu_count number_worker in
      case acquire_gate fl lock_path time worker holding gate of
        None \<Rightarrow> None
      | Some ops \<Rightarrow>
          (case probe_lock lock_path time outcome released of
             (ops', ex) \<Rightarrow> Some (ops @ ops', ex)))"

text \<open>The timeouts with which a run tried to acquire the lock of a given path.\<close>

fun acquire_timeouts :: "string \<Rightarrow> lock_op list \<Rightarrow> real list" where
  "acquire_timeouts p [] = []"
| "acquire_timeouts p (Acquire q t # ops) =
     (if q = p then t # acquire_timeouts p ops else acquire_timeouts p ops)"
| "acquire_timeouts p (Release q # ops) = acquire_timeouts p ops"
| "acquire_timeouts p (Break_lock q # ops) = acquire_timeouts p ops"

text \<open>
  The rounds of the gate loop a run goes through: those before the first that acquires
  the gate, and that one. In a round the gate is tried with the long timeout, and
  broken when the attempt times out.
\<close>

definition rounds_tried :: "(real \<times> acquire_outcome) list \<Rightarrow> (real \<times> acquire_outcome) list" where
  "rounds_tried gate =
     takeWhile (\<lambda>a. snd a \<noteq> Acquired) gate @ take 1 (dropWhile (\<lambda>a. snd a \<noteq> Acquired) gate)"

definition gate_round ::
  "(real \<Rightarrow> real) \<Rightarrow> string \<Rightarrow> real \<Rightarrow> int \<Rightarrow> real \<times> acquire_outcome \<Rightarrow> lock_op list" where
  "gate_round fl lock_path time worker a =
     Acquire (stale_gate lock_path) (gate_timeout fl time worker (fst a))
       # (if snd a = LockTimeout then [Break_lock (stale_gate lock_path)] else [])"

section \<open>The batch scheduler (\<^verbatim>\<open>processor.py\<close>, \<^verbatim>\<open>batch\<close>)\<close>

text \<open>
  What \<^verbatim>\<open>batch\<close> does in the submitting process: the queues and processes it creates,
  the items it enqueues, the processes it starts and joins, and the errors it logs.
  What the worker processes deliver is an input: the results the polling loop took
  from the output queue, each process's exit code, and the results the last pass
  took, for a run in which every worker exits.
\<close>

datatype 'a sched_op =
    New_queue
  | Put_nowait 'a
  | New_process
  | Start
  | Join
  | Log_failed nat
  | Log_missing nat nat

record 'r workers =
  collected :: "'r list"
  exitcode :: "nat \<Rightarrow> int"
  leftover :: "'r list"

definition batch :: "int \<Rightarrow> int \<Rightarrow> 'r workers \<Rightarrow> 'a list \<Rightarrow> 'a sched_op list \<times> 'r list" where
  "batch cpu_count number_worker w input =
     (if length input = 0 then ([], [])
      else
        let worker = nat (worker_number cpu_count number_worker);
            failed = filter (\<lambda>i. exitcode w i \<noteq> 0) [0..<worker];
            result = collected w @ leftover w
        in ([New_queue, New_queue] @ map Put_nowait input
              @ replicate worker New_process @ replicate worker Start @ replicate worker Join
              @ (if length failed > 0 then [Log_failed (length failed)] else [])
              @ (if length result \<noteq> length input
                 then [Log_missing (length input) (length result)] else []),
            result))"

section \<open>Example runs\<close>

text \<open>A new \<^verbatim>\<open>Github\<close> object on an empty cache directory, the answers of the remote,
  and the configuration of \<^verbatim>\<open>configserver\<close> (a maximum cache age of 7 days, no forced
  update).\<close>

definition empty_cache :: cache where
  "empty_cache = \<lparr>files = Map.empty, cache_time = JObj [], requests = 0\<rparr>"

definition repository_payload :: json where
  "repository_payload = JObj [(''name'', JStr ''kana-keyboard''), (''size'', JNum 11)]"

definition ok_response :: response where
  "ok_response = Response 200 (Some repository_payload)"

definition not_found_response :: response where
  "not_found_response = Response 404 (Some (JObj [(''message'', JStr ''Not Found'')]))"

definition rate_limit_response :: response where
  "rate_limit_response =
     Response 403 (Some (JObj [(''message'', JStr ''API rate limit exceeded for 10.0.0.1'')]))"

definition always :: "response \<Rightarrow> nat \<Rightarrow> response" where
  "always r n = r"

definition env_at :: "int \<Rightarrow> (nat \<Rightarrow> response) \<Rightarrow> env" where
  "env_at day remote =
     \<lparr>today = day, maximum_cache_age = 7, force_cache_update = False, network = remote\<rparr>"

text \<open>The cache after the repository data was fetched on day 100, and after a second
  call on day 110 to which the remote answered 404.\<close>

definition fetched_cache :: cache where
  "fetched_cache =
     fst (get_data (env_at 100 (always ok_response)) empty_cache ''repository_data'')"

definition refetched_cache :: cache where
  "refetched_cache =
     fst (get_data (env_at 110 (always not_found_response)) fetched_cache ''repository_data'')"

text \<open>The cache after a call for the readme on day 100 to which the remote answered 404.\<close>

definition error_cache :: cache where
  "error_cache = fst (get_data (env_at 100 (always not_found_response)) empty_cache ''readme'')"

text \<open>A new \<^verbatim>\<open>Github\<close> object on the directory that call left.\<close>

definition new_object_on_error_cache :: cache where
  "new_object_on_error_cache =
     \<lparr>files = files error_cache, cache_time = JObj [], requests = requests error_cache\<rparr>"

text \<open>A directory with a data file for the readme and no journal, and a remote whose
  readme is another document.\<close>

definition unjournaled_cache :: cache where
  "unjournaled_cache =
     \<lparr>files = [''readme'' \<mapsto> Json repository_payload], cache_time = JObj [], requests = 0\<rparr>"

definition readme_payload :: json where
  "readme_payload = JObj [(''name'', JStr ''README.md''), (''encoding'', JStr ''base64'')]"

definition readme_response :: response where
  "readme_response = Response 200 (Some readme_payload)"

text \<open>
  Arithmetic without rounding error: what Python computes where every intermediate
  result is a double, as in the runs below (20 / 5 = 4, 4 * 4 = 16, 20 + 16 = 36,
  20 / 2 = 10, 10 * 0.5 = 5, 10 * 0.25 = 2.5, 36 + 5 = 41, 36 + 2.5 = 38.5).
\<close>

definition exact :: "real \<Rightarrow> real" where
  "exact x = x"

text \<open>The calls of a run of \<^verbatim>\<open>check_stale_lock\<close> on 4 workers with the default
  \<^verbatim>\<open>time=20\<close>, in which the gate is free and the lock is held by a dead process.\<close>

definition stale_run :: "lock_op list" where
  "stale_run =
     [Acquire ''TEST_LOCK_STALE'' 41, Acquire ''TEST_LOCK'' 20, Break_lock ''TEST_LOCK'',
      Release ''TEST_LOCK_STALE'']"

section \<open>Facts about the operations\<close>

lemmas cache_defs = get_data_def test_cache_valid_def cache_age_def read_metadata_def
  update_cache_def save_metadata_def path_exists_def error_marker_def rate_limited_def Let_def
  journal_def definitive_error_def rate_limit_reported_def journal_entry_def

lemmas example_defs = empty_cache_def repository_payload_def ok_response_def
  not_found_response_def rate_limit_response_def always_def env_at_def

lemma files_read_metadata: "files (read_metadata c) = files c"
  by (simp add: read_metadata_def split: option.splits content.splits)

lemma requests_read_metadata: "requests (read_metadata c) = requests c"
  by (simp add: read_metadata_def split: option.splits content.splits)

lemma path_exists_read_metadata: "path_exists (read_metadata c) p = path_exists c p"
  by (simp add: path_exists_def files_read_metadata)

lemma read_metadata_idem: "read_metadata (read_metadata c) = read_metadata c"
  by (simp add: read_metadata_def split: option.splits content.splits)

lemma py_in_JObj: "py_in k (JObj kvs) = Inr (map_of kvs k \<noteq> None)"
  by (simp add: map_of_eq_None_iff)

lemma error_marker_neq_key: "error_marker k \<noteq> k"
  by (simp add: error_marker_def)

lemma error_marker_neq_METADATA: "error_marker k \<noteq> ''METADATA''"
proof
  assume "error_marker k = ''METADATA''"
  then have "length (error_marker k) = length ''METADATA''" by simp
  then show False by (simp add: error_marker_def)
qed

lemma test_cache_valid_read_metadata:
  "test_cache_valid e (read_metadata c) k = test_cache_valid e c k"
  by (simp add: test_cache_valid_def read_metadata_idem)

lemma requests_update_cache: "requests (fst (update_cache e c k)) = Suc (requests c)"
  by (simp add: update_cache_def Let_def save_metadata_def
      split: response.splits option.splits sum.splits bool.splits)

lemma get_data_read_metadata: "get_data e (read_metadata c) k = get_data e c k"
  by (simp add: get_data_def test_cache_valid_read_metadata)

text \<open>A call that returns a payload served it from the data file or stored it.\<close>

lemma get_data_payload_cases:
  assumes "get_data e c k = (c1, Inr p)"
  shows "(c1 = read_metadata c \<and> files c (error_marker k) = None \<and> files c k = Some (Json p))
         \<or> update_cache e (read_metadata c) k = (c1, Inr p)"
  using assms
  by (auto simp: get_data_def test_cache_valid_def Let_def files_read_metadata
      path_exists_read_metadata path_exists_def
      split: sum.splits bool.splits if_splits option.splits content.splits)

lemma update_cache_payload:
  assumes "update_cache e c k = (c1, Inr p)" and "cache_time c = JObj kvs"
  shows "network e (requests c) = Response 200 (Some p)"
    and "files c1 = (files c)(error_marker k := None, k \<mapsto> Json p,
                 ''METADATA'' \<mapsto> Json (JObj (AList.update k (JNum (today e)) kvs)))"
    and "requests c1 = Suc (requests c)"
  using assms
  by (auto simp: update_cache_def Let_def save_metadata_def path_exists_def
      split: response.splits option.splits sum.splits bool.splits if_splits)

lemma get_data_cached:
  assumes "journal c = JObj kvs" and "map_of kvs k = Some (JNum d)"
    and "\<bar>today e - d\<bar> < maximum_cache_age e" and "\<not> force_cache_update e"
    and "files c (error_marker k) = None" and "files c k = Some (Json p)"
  shows "get_data e c k = (read_metadata c, Inr p)"
  using assms
  by (simp add: get_data_def test_cache_valid_def Let_def journal_def cache_age_def
      py_in_JObj path_exists_read_metadata files_read_metadata path_exists_def
      del: py_in.simps)

text \<open>A call either goes through the update or sends no request.\<close>

lemma get_data_fetch_cases:
  "get_data e c k = update_cache e (read_metadata c) k
   \<or> requests (fst (get_data e c k)) = requests c"
  by (auto simp: get_data_def test_cache_valid_def Let_def requests_read_metadata
      split: sum.splits bool.splits if_splits option.splits content.splits)

lemma get_data_fetched:
  assumes "requests (fst (get_data e c k)) = Suc (requests c)"
  shows "get_data e c k = update_cache e (read_metadata c) k"
  using assms get_data_fetch_cases [of e c k] by auto

lemma update_cache_definitive:
  assumes "definitive_error (network e (requests c))" and "cache_time c = JObj kvs"
  shows "snd (update_cache e c k) = Inl GithubError"
    and "files (fst (update_cache e c k)) =
           (files c)(error_marker k \<mapsto> Unparsable,
              ''METADATA'' \<mapsto> Json (JObj (AList.update k (JNum (today e)) kvs)))"
    and "cache_time (fst (update_cache e c k)) = JObj (AList.update k (JNum (today e)) kvs)"
  using assms
  by (auto simp: update_cache_def definitive_error_def Let_def save_metadata_def path_exists_def
      split: response.splits option.splits)

lemma update_cache_rate_limit:
  assumes "rate_limit_reported (network e (requests c))"
  shows "snd (update_cache e c k) = Inl GithubError"
    and "files (fst (update_cache e c k)) = (files c)(error_marker k := None)"
    and "cache_time (fst (update_cache e c k)) = cache_time c"
  using assms
  by (auto simp: update_cache_def rate_limit_reported_def Let_def path_exists_def
      split: response.splits option.splits)

lemma dict_journal:
  assumes "is_dict (journal c)"
  obtains kvs where "cache_time (read_metadata c) = JObj kvs"
  using assms by (cases "journal c") (auto simp: journal_def)

text \<open>The example runs, evaluated.\<close>

lemma fetched_cache_eq:
  "fetched_cache =
     \<lparr>files = [''repository_data'' \<mapsto> Json repository_payload,
                 ''METADATA'' \<mapsto> Json (JObj [(''repository_data'', JNum 100)])],
       cache_time = JObj [(''repository_data'', JNum 100)], requests = 1\<rparr>"
  by (simp add: fetched_cache_def cache_defs example_defs)

lemma first_fetch:
  "get_data (env_at 100 (always ok_response)) empty_cache ''repository_data''
     = (fetched_cache, Inr repository_payload)"
  by (simp add: fetched_cache_def prod_eq_iff) (simp add: cache_defs example_defs)

lemma empty_cache_dict: "is_dict (journal empty_cache)"
  by (simp add: journal_def read_metadata_def empty_cache_def)

lemma not_found_definitive:
  "definitive_error (network (env_at 100 (always not_found_response)) (requests empty_cache))"
  by (simp add: definitive_error_def rate_limited_def sublist_code(3) example_defs)

lemma not_found_fetched:
  "requests (fst (get_data (env_at 100 (always not_found_response)) empty_cache ''readme''))
     = Suc (requests empty_cache)"
  by (simp add: cache_defs example_defs sublist_code(3))

lemma rate_limit_example:
  "rate_limit_reported (network (env_at 100 (always rate_limit_response)) (requests empty_cache))"
  by (simp add: rate_limit_reported_def rate_limited_def sublist_code(3) example_defs)

lemma rate_limit_fetched:
  "requests (fst (get_data (env_at 100 (always rate_limit_response)) empty_cache ''readme''))
     = Suc (requests empty_cache)"
  by (simp add: cache_defs example_defs sublist_code(3))

text \<open>Facts about the lock procedure.\<close>

lemma stale_gate_neq: "stale_gate p \<noteq> p"
  by (simp add: stale_gate_def)

lemma acquire_timeouts_append:
  "acquire_timeouts p (xs @ ys) = acquire_timeouts p xs @ acquire_timeouts p ys"
  by (induction p xs rule: acquire_timeouts.induct) auto

lemma gate_round_timeouts:
  "acquire_timeouts (stale_gate p) (concat (map (gate_round fl p time w) rounds))
     = map (\<lambda>a. gate_timeout fl time w (fst a)) rounds"
  "acquire_timeouts p (concat (map (gate_round fl p time w) rounds)) = []"
  using stale_gate_neq [of p]
  by (induction rounds) (auto simp: gate_round_def acquire_timeouts_append)

lemma acquire_gate_rounds:
  "acquire_gate fl p time w False gate = Some g \<Longrightarrow>
     g = concat (map (gate_round fl p time w) (rounds_tried gate))
     \<and> rounds_tried gate \<noteq> [] \<and> snd (last (rounds_tried gate)) = Acquired"
proof (induction gate arbitrary: g)
  case Nil
  then show ?case by simp
next
  case (Cons a gate)
  obtain r outcome where a: "a = (r, outcome)" by (cases a)
  show ?case
  proof (cases outcome)
    case Acquired
    then show ?thesis using Cons.prems a by (auto simp: rounds_tried_def gate_round_def)
  next
    case LockTimeout
    then obtain g' where g': "acquire_gate fl p time w False gate = Some g'"
      and g: "g = Acquire (stale_gate p) (gate_timeout fl time w r) # Break_lock (stale_gate p) # g'"
      using Cons.prems a by auto
    from Cons.IH [OF g'] show ?thesis
      using g a LockTimeout by (auto simp: rounds_tried_def gate_round_def)
  next
    case LockFailed
    then obtain g' where g': "acquire_gate fl p time w False gate = Some g'"
      and g: "g = Acquire (stale_gate p) (gate_timeout fl time w r) # g'"
      using Cons.prems a by auto
    from Cons.IH [OF g'] show ?thesis
      using g a LockFailed by (auto simp: rounds_tried_def gate_round_def)
  qed
qed

lemma probe_lock_timeouts:
  "probe_lock p time outcome released = (ops, ex) \<Longrightarrow>
     acquire_timeouts p ops = [time] \<and> acquire_timeouts (stale_gate p) ops = []
     \<and> (\<exists>rest. ops = Acquire p time # rest)"
  using stale_gate_neq [of p]
  by (auto simp: probe_lock_def split: acquire_outcome.splits if_splits)

section \<open>The cache: fetch once, serve from disk\<close>

text \<open>
  C1. Two calls of \<^verbatim>\<open>_get_data\<close> for the same key, one right after the other (same day,
  same configuration, no forced update, a positive maximum cache age): when the first
  returns a payload, the second returns the same payload, and the two calls together
  send at most one request. The journal is a dict, as \<^verbatim>\<open>_save_metadata\<close> writes it, and
  the key is not the name of the journal file.
\<close>

theorem get_data_twice:
  assumes first: "get_data e c k = (c1, Inr p)"
    and dict: "is_dict (journal c)"
    and key: "k \<noteq> ''METADATA''"
    and noforce: "\<not> force_cache_update e"
    and age: "0 < maximum_cache_age e"
  shows "snd (get_data e c1 k) = Inr p \<and> requests (fst (get_data e c1 k)) \<le> Suc (requests c)"
proof -
  from get_data_payload_cases [OF first] show ?thesis
  proof
    assume served: "c1 = read_metadata c \<and> files c (error_marker k) = None
      \<and> files c k = Some (Json p)"
    then have "get_data e c1 k = (c1, Inr p)"
      using first by (simp add: get_data_read_metadata)
    then show ?thesis using served by (simp add: requests_read_metadata)
  next
    assume upd: "update_cache e (read_metadata c) k = (c1, Inr p)"
    from dict obtain kvs where kvs: "cache_time (read_metadata c) = JObj kvs"
      by (rule dict_journal)
    note facts = update_cache_payload [OF upd kvs]
    let ?kvs = "AList.update k (JNum (today e)) kvs"
    have j: "journal c1 = JObj ?kvs"
      using facts(2) by (simp add: journal_def read_metadata_def)
    have m: "map_of ?kvs k = Some (JNum (today e))"
      by (simp add: update_conv')
    have f1: "files c1 (error_marker k) = None"
      using facts(2) error_marker_neq_key [of k] error_marker_neq_METADATA [of k] by simp
    have f2: "files c1 k = Some (Json p)"
      using facts(2) key by simp
    have "get_data e c1 k = (read_metadata c1, Inr p)"
      using get_data_cached [OF j m _ noforce f1 f2] age by simp
    then show ?thesis
      using facts(3) by (simp add: requests_read_metadata)
  qed
qed

theorem get_data_twice_witness:
  "get_data (env_at 100 (always ok_response)) empty_cache ''repository_data''
     = (fetched_cache, Inr repository_payload)
   \<and> requests fetched_cache = 1
   \<and> snd (get_data (env_at 100 (always ok_response)) fetched_cache ''repository_data'')
     = Inr repository_payload
   \<and> requests (fst (get_data (env_at 100 (always ok_response)) fetched_cache ''repository_data''))
     \<le> 1"
proof -
  let ?e = "env_at 100 (always ok_response)"
  have key: "''repository_data'' \<noteq> ''METADATA''" by simp
  have noforce: "\<not> force_cache_update ?e" by (simp add: env_at_def)
  have age: "0 < maximum_cache_age ?e" by (simp add: env_at_def)
  from get_data_twice [OF first_fetch empty_cache_dict key noforce age] first_fetch
  show ?thesis by (simp add: empty_cache_def fetched_cache_eq)
qed

section \<open>Data file and error marker\<close>

text \<open>
  C2, as the code has it. A call of \<^verbatim>\<open>_get_data\<close> that returns a payload leaves no error
  marker for the key, and the data file holds the payload: the marker is removed before
  every request, and a marker inside the staleness window makes the call fail. The
  writer of the marker does not remove the data file.
\<close>

theorem payload_excludes_marker:
  assumes "get_data e c k = (c1, Inr p)"
  shows "files c1 (error_marker k) = None \<and> (k = ''METADATA'' \<or> files c1 k = Some (Json p))"
proof -
  from get_data_payload_cases [OF assms] show ?thesis
  proof
    assume "c1 = read_metadata c \<and> files c (error_marker k) = None \<and> files c k = Some (Json p)"
    then show ?thesis
      by (simp add: files_read_metadata)
  next
    assume "update_cache e (read_metadata c) k = (c1, Inr p)"
    then show ?thesis
      using error_marker_neq_key [of k] error_marker_neq_METADATA [of k]
      by (auto simp: update_cache_def Let_def save_metadata_def path_exists_def
          split: response.splits option.splits sum.splits bool.splits if_splits)
  qed
qed

theorem payload_excludes_marker_witness:
  "get_data (env_at 100 (always ok_response)) empty_cache ''repository_data''
     = (fetched_cache, Inr repository_payload)
   \<and> files fetched_cache (error_marker ''repository_data'') = None
   \<and> files fetched_cache ''repository_data'' = Some (Json repository_payload)"
proof -
  from payload_excludes_marker [OF first_fetch] first_fetch show ?thesis by simp
qed

text \<open>
  C2 as stated fails: the repository data is fetched on day 100; on day 110 the entry
  has expired and the remote answers 404. The marker is written beside the data file of
  day 100.
\<close>

theorem marker_beside_data_file:
  "files refetched_cache ''repository_data'' = Some (Json repository_payload)
   \<and> files refetched_cache (error_marker ''repository_data'') = Some Unparsable"
  by (simp add: refetched_cache_def fetched_cache_eq cache_defs example_defs sublist_code(3))

section \<open>The validity test\<close>

text \<open>
  C3. For every data key, \<^verbatim>\<open>_test_cache_valid\<close> returns true exactly when a data file
  or an error marker exists for the key, the force-refresh flag is not set, and the
  recorded age of the entry in days is strictly below the maximum cache age.
\<close>

theorem test_cache_valid_iff:
  "(snd (test_cache_valid e c data_key) = Inr True) = spec_valid e c data_key"
proof (cases "cache_time (read_metadata c)")
  case (JObj kvs)
  then show ?thesis
    by (cases "map_of kvs data_key")
       (auto simp: test_cache_valid_def spec_valid_def recorded_age_def cache_age_def
          path_exists_read_metadata Let_def py_in_JObj simp del: py_in.simps
          split: sum.splits bool.splits option.splits)
qed (auto simp: test_cache_valid_def spec_valid_def recorded_age_def cache_age_def
       path_exists_read_metadata Let_def split: sum.splits bool.splits)

theorem test_cache_valid_iff_witness:
  "spec_valid (env_at 103 (always ok_response)) fetched_cache ''repository_data''
   \<and> snd (test_cache_valid (env_at 103 (always ok_response)) fetched_cache ''repository_data'')
      = Inr True"
proof -
  have "spec_valid (env_at 103 (always ok_response)) fetched_cache ''repository_data''"
    by (simp add: fetched_cache_eq spec_valid_def recorded_age_def path_exists_def
        read_metadata_def env_at_def)
  then show ?thesis
    using test_cache_valid_iff [of "env_at 103 (always ok_response)" fetched_cache
        "''repository_data''"]
    by simp
qed

section \<open>Cached errors\<close>

text \<open>
  C4. After a call whose request was answered with a definitive remote error, a later
  call for the key on the directory that call left, by the same object or by any other
  (whatever its \<^verbatim>\<open>_cache_time\<close>), fails with \<^verbatim>\<open>GithubError\<close> and sends no request while
  the force flag is unset and the distance in days to the day of the error is below the
  maximum cache age; otherwise it sends a request again.
\<close>

theorem cached_error_served:
  assumes fetched: "requests (fst (get_data e c k)) = Suc (requests c)"
    and resp: "definitive_error (network e (requests c))"
    and dict: "is_dict (journal c)"
    and c1: "files c1 = files (fst (get_data e c k))"
  shows "if \<not> force_cache_update e' \<and> \<bar>today e' - today e\<bar> < maximum_cache_age e'
         then snd (get_data e' c1 k) = Inl GithubError
              \<and> requests (fst (get_data e' c1 k)) = requests c1
         else requests (fst (get_data e' c1 k)) = Suc (requests c1)"
proof -
  from dict obtain kvs where kvs: "cache_time (read_metadata c) = JObj kvs"
    by (rule dict_journal)
  have resp': "definitive_error (network e (requests (read_metadata c)))"
    using resp by (simp add: requests_read_metadata)
  note facts = update_cache_definitive [OF resp' kvs, of k]
  let ?kvs = "AList.update k (JNum (today e)) kvs"
  have files1: "files c1 = (files (read_metadata c))(error_marker k \<mapsto> Unparsable,
      ''METADATA'' \<mapsto> Json (JObj ?kvs))"
    using facts(2) c1 by (simp add: get_data_fetched [OF fetched])
  have marker: "path_exists c1 (error_marker k)"
    using files1 error_marker_neq_METADATA [of k] by (simp add: path_exists_def)
  have j: "cache_time (read_metadata c1) = JObj ?kvs"
    using files1 by (simp add: read_metadata_def)
  have age: "cache_age e' (JObj ?kvs) k = Inr \<bar>today e' - today e\<bar>"
    by (simp add: cache_age_def py_in_JObj update_conv' del: py_in.simps)
  have valid: "test_cache_valid e' c1 k =
      (read_metadata c1,
       Inr (\<not> force_cache_update e' \<and> \<bar>today e' - today e\<bar> < maximum_cache_age e'))"
    using marker by (simp add: test_cache_valid_def Let_def j age path_exists_read_metadata)
  show ?thesis
    using marker
    by (simp add: get_data_def valid path_exists_read_metadata requests_read_metadata
        requests_update_cache)
qed

theorem cached_error_served_witness:
  "requests (fst (get_data (env_at 100 (always not_found_response)) empty_cache ''readme''))
     = Suc (requests empty_cache)
   \<and> definitive_error (network (env_at 100 (always not_found_response)) (requests empty_cache))
   \<and> is_dict (journal empty_cache)
   \<and> files new_object_on_error_cache = files error_cache
   \<and> cache_time new_object_on_error_cache = JObj []
   \<and> snd (get_data (env_at 103 (always ok_response)) new_object_on_error_cache ''readme'')
       = Inl GithubError
   \<and> requests (fst (get_data (env_at 103 (always ok_response)) new_object_on_error_cache
        ''readme'')) = requests new_object_on_error_cache
   \<and> requests (fst (get_data (env_at 107 (always ok_response)) new_object_on_error_cache
        ''readme'')) = Suc (requests new_object_on_error_cache)
   \<and> snd (get_data (env_at 103 (always ok_response)) error_cache ''readme'') = Inl GithubError
   \<and> requests (fst (get_data (env_at 103 (always ok_response)) error_cache ''readme''))
       = requests error_cache"
proof -
  have dir: "files new_object_on_error_cache = files error_cache"
    and mem: "cache_time new_object_on_error_cache = JObj []"
    by (simp_all add: new_object_on_error_cache_def)
  have dir': "files new_object_on_error_cache
      = files (fst (get_data (env_at 100 (always not_found_response)) empty_cache ''readme''))"
    using dir by (simp add: error_cache_def)
  have same: "files error_cache
      = files (fst (get_data (env_at 100 (always not_found_response)) empty_cache ''readme''))"
    by (simp add: error_cache_def)
  note served = cached_error_served [OF not_found_fetched not_found_definitive empty_cache_dict]
  have inside: "snd (get_data (env_at 103 (always ok_response)) new_object_on_error_cache
        ''readme'') = Inl GithubError
      \<and> requests (fst (get_data (env_at 103 (always ok_response)) new_object_on_error_cache
          ''readme'')) = requests new_object_on_error_cache"
    using served [OF dir', of "env_at 103 (always ok_response)"] by (simp add: env_at_def)
  have after: "requests (fst (get_data (env_at 107 (always ok_response))
        new_object_on_error_cache ''readme'')) = Suc (requests new_object_on_error_cache)"
    using served [OF dir', of "env_at 107 (always ok_response)"] by (simp add: env_at_def)
  have own: "snd (get_data (env_at 103 (always ok_response)) error_cache ''readme'')
        = Inl GithubError
      \<and> requests (fst (get_data (env_at 103 (always ok_response)) error_cache ''readme''))
          = requests error_cache"
    using served [OF same, of "env_at 103 (always ok_response)"] by (simp add: env_at_def)
  show ?thesis
    using not_found_fetched not_found_definitive empty_cache_dict dir mem inside after own
    by simp
qed

text \<open>
  C5. When the request of a call is answered with a definitive remote error, the call
  writes the (empty) error marker of the key, stamps today's day number for the key in
  the journal file, writes no payload, and raises \<^verbatim>\<open>GithubError\<close>.
\<close>

theorem definitive_error_cached:
  assumes fetched: "requests (fst (get_data e c k)) = Suc (requests c)"
    and resp: "definitive_error (network e (requests c))"
    and dict: "is_dict (journal c)"
  shows "snd (get_data e c k) = Inl GithubError
       \<and> files (fst (get_data e c k)) (error_marker k) = Some Unparsable
       \<and> journal_entry (fst (get_data e c k)) k = Some (JNum (today e))
       \<and> (k = ''METADATA'' \<or> files (fst (get_data e c k)) k = files c k)"
proof -
  from dict obtain kvs where kvs: "cache_time (read_metadata c) = JObj kvs"
    by (rule dict_journal)
  have resp': "definitive_error (network e (requests (read_metadata c)))"
    using resp by (simp add: requests_read_metadata)
  note facts = update_cache_definitive [OF resp' kvs, of k]
  show ?thesis
    using facts error_marker_neq_key [of k] error_marker_neq_METADATA [of k]
    by (auto simp: get_data_fetched [OF fetched] journal_entry_def update_conv'
        files_read_metadata)
qed

theorem definitive_error_cached_witness:
  "requests (fst (get_data (env_at 100 (always not_found_response)) empty_cache ''readme''))
     = Suc (requests empty_cache)
   \<and> definitive_error (network (env_at 100 (always not_found_response)) (requests empty_cache))
   \<and> is_dict (journal empty_cache)
   \<and> snd (get_data (env_at 100 (always not_found_response)) empty_cache ''readme'')
       = Inl GithubError
   \<and> files error_cache ''readme_ERROR_GITHUB'' = Some Unparsable
   \<and> journal_entry error_cache ''readme'' = Some (JNum 100)
   \<and> files error_cache ''readme'' = None"
proof -
  have today: "today (env_at 100 (always not_found_response)) = 100" by (simp add: env_at_def)
  have none: "files empty_cache ''readme'' = None" by (simp add: empty_cache_def)
  from definitive_error_cached [OF not_found_fetched not_found_definitive empty_cache_dict]
  show ?thesis
    using not_found_fetched not_found_definitive empty_cache_dict today none
    by (simp add: error_cache_def error_marker_def)
qed

section \<open>Rate limiting\<close>

text \<open>
  C6, as the code has it. When the request of a call is answered with the rate-limit
  report, the call raises \<^verbatim>\<open>GithubError\<close>, the exception it also raises on a definitive
  remote error (\<^verbatim>\<open>github.py\<close> has no exception of its own for the rate limit), and
  writes no file: the directory is as before, except that a marker left by an earlier
  call is gone.
\<close>

theorem rate_limit_not_cached:
  assumes fetched: "requests (fst (get_data e c k)) = Suc (requests c)"
    and resp: "rate_limit_reported (network e (requests c))"
  shows "snd (get_data e c k) = Inl GithubError
       \<and> files (fst (get_data e c k)) = (files c)(error_marker k := None)"
proof -
  have resp': "rate_limit_reported (network e (requests (read_metadata c)))"
    using resp by (simp add: requests_read_metadata)
  note facts = update_cache_rate_limit [OF resp', of k]
  show ?thesis
    using facts by (simp add: get_data_fetched [OF fetched] files_read_metadata)
qed

theorem rate_limit_not_cached_witness:
  "requests (fst (get_data (env_at 100 (always rate_limit_response)) empty_cache ''readme''))
     = Suc (requests empty_cache)
   \<and> rate_limit_reported (network (env_at 100 (always rate_limit_response)) (requests empty_cache))
   \<and> snd (get_data (env_at 100 (always rate_limit_response)) empty_cache ''readme'')
       = Inl GithubError
   \<and> files (fst (get_data (env_at 100 (always rate_limit_response)) empty_cache ''readme''))
       = Map.empty"
proof -
  have none: "files empty_cache = Map.empty" by (simp add: empty_cache_def)
  from rate_limit_not_cached [OF rate_limit_fetched rate_limit_example]
  show ?thesis
    using rate_limit_fetched rate_limit_example none by simp
qed

text \<open>
  C6 as stated fails: the exception raised on a rate-limit report is not distinct. It
  is the \<^verbatim>\<open>GithubError\<close> raised on a 404, and the one this code raises on a failed
  connection (for which \<^verbatim>\<open>GithubConnectionError\<close> is declared and never raised).
\<close>

theorem rate_limit_error_not_distinct:
  "snd (get_data (env_at 100 (always rate_limit_response)) empty_cache ''readme'')
     = Inl GithubError
   \<and> snd (get_data (env_at 100 (always not_found_response)) empty_cache ''readme'')
     = Inl GithubError
   \<and> snd (get_data (env_at 100 (always NoConnection)) empty_cache ''readme'')
     = Inl GithubError"
  by (simp add: cache_defs example_defs sublist_code(3))

section \<open>Stale-lock recovery\<close>

text \<open>
  C7, as the code has it. In every run of \<^verbatim>\<open>check_stale_lock\<close> that returns, whatever
  the rounding of the arithmetic: unless the process holds the \<^verbatim>\<open>_STALE\<close> gate already,
  it tries the gate round by round with the long timeout (the base time, plus a fifth
  of it times the number of workers, plus half of it times the random number of the
  round), breaking the gate after every attempt that times out, until an attempt
  acquires it. Then, holding the gate, it tries the guarded lock once, with the base
  time as timeout. When that attempt times out, the guarded lock is broken and then
  the gate is released.
\<close>

theorem stale_lock_probe:
  assumes run: "check_stale_lock fl cpu_count number_worker p time holding gate outcome released
      = Some (ops, ex)"
    and worker: "worker = worker_number cpu_count number_worker"
    and rounds: "rounds = (if holding then [] else rounds_tried gate)"
  shows "(\<exists>rest. ops = concat (map (gate_round fl p time worker) rounds) @ Acquire p time # rest)
       \<and> (holding \<or> (rounds \<noteq> [] \<and> snd (last rounds) = Acquired))
       \<and> acquire_timeouts (stale_gate p) ops
           = map (\<lambda>a. gate_timeout fl time worker (fst a)) rounds
       \<and> acquire_timeouts p ops = [time]
       \<and> (outcome = LockTimeout \<longrightarrow>
            ex = None \<and>
            ops = concat (map (gate_round fl p time worker) rounds)
                    @ [Acquire p time, Break_lock p, Release (stale_gate p)])"
proof -
  from run obtain g ops'
    where g: "acquire_gate fl p time worker holding gate = Some g"
      and pr: "probe_lock p time outcome released = (ops', ex)" and ops: "ops = g @ ops'"
    by (auto simp: check_stale_lock_def worker split: option.splits prod.splits)
  have gate_ops: "g = concat (map (gate_round fl p time worker) rounds)
      \<and> (holding \<or> (rounds \<noteq> [] \<and> snd (last rounds) = Acquired))"
  proof (cases holding)
    case True
    then show ?thesis using g rounds by simp
  next
    case False
    then show ?thesis using acquire_gate_rounds [of fl p time worker gate g] g rounds by simp
  qed
  note probe = probe_lock_timeouts [OF pr]
  from probe obtain rest where rest: "ops' = Acquire p time # rest" by blast
  have shape: "\<exists>rest. ops = concat (map (gate_round fl p time worker) rounds) @ Acquire p time # rest"
    using gate_ops ops rest by blast
  have gate_timeouts: "acquire_timeouts (stale_gate p) ops
      = map (\<lambda>a. gate_timeout fl time worker (fst a)) rounds"
    using gate_ops probe by (simp add: ops acquire_timeouts_append gate_round_timeouts)
  have one: "acquire_timeouts p ops = [time]"
    using gate_ops probe by (simp add: ops acquire_timeouts_append gate_round_timeouts)
  have stale: "outcome = LockTimeout \<longrightarrow>
      ex = None \<and>
      ops = concat (map (gate_round fl p time worker) rounds)
              @ [Acquire p time, Break_lock p, Release (stale_gate p)]"
  proof
    assume oc: "outcome = LockTimeout"
    from pr oc have "ops' = [Acquire p time, Break_lock p, Release (stale_gate p)]" and "ex = None"
      by (auto simp: probe_lock_def)
    then show "ex = None \<and>
      ops = concat (map (gate_round fl p time worker) rounds)
              @ [Acquire p time, Break_lock p, Release (stale_gate p)]"
      using ops gate_ops by simp
  qed
  from shape gate_ops gate_timeouts one stale show ?thesis by blast
qed

theorem stale_lock_probe_witness:
  "check_stale_lock exact 4 0 ''TEST_LOCK'' 20 False [(1/4, LockTimeout), (1/2, Acquired)]
      LockTimeout True
     = Some ([Acquire ''TEST_LOCK_STALE'' (77/2), Break_lock ''TEST_LOCK_STALE''] @ stale_run, None)
   \<and> concat (map (gate_round exact ''TEST_LOCK'' 20 4)
        (rounds_tried [(1/4, LockTimeout), (1/2, Acquired)]))
     = [Acquire ''TEST_LOCK_STALE'' (77/2), Break_lock ''TEST_LOCK_STALE'',
        Acquire ''TEST_LOCK_STALE'' 41]
   \<and> acquire_timeouts ''TEST_LOCK_STALE''
        ([Acquire ''TEST_LOCK_STALE'' (77/2), Break_lock ''TEST_LOCK_STALE''] @ stale_run)
     = [77/2, 41]
   \<and> acquire_timeouts ''TEST_LOCK''
        ([Acquire ''TEST_LOCK_STALE'' (77/2), Break_lock ''TEST_LOCK_STALE''] @ stale_run) = [20]"
proof -
  let ?gate = "[(1/4 :: real, LockTimeout), (1/2, Acquired)]"
  let ?ops = "[Acquire ''TEST_LOCK_STALE'' (77/2), Break_lock ''TEST_LOCK_STALE''] @ stale_run"
  have run: "check_stale_lock exact 4 0 ''TEST_LOCK'' 20 False ?gate LockTimeout True
      = Some (?ops, None)"
    by (simp add: check_stale_lock_def worker_number_def probe_lock_def stale_gate_def
        gate_timeout_def stale_run_def exact_def)
  have worker: "(4 :: int) = worker_number 4 0" by (simp add: worker_number_def)
  have rounds: "rounds_tried ?gate = (if False then [] else rounds_tried ?gate)" by simp
  have tried: "concat (map (gate_round exact ''TEST_LOCK'' 20 4) (rounds_tried ?gate))
      = [Acquire ''TEST_LOCK_STALE'' (77/2), Break_lock ''TEST_LOCK_STALE'',
         Acquire ''TEST_LOCK_STALE'' 41]"
    by (simp add: rounds_tried_def gate_round_def gate_timeout_def stale_gate_def exact_def)
  have long: "map (\<lambda>a. gate_timeout exact 20 4 (fst a)) (rounds_tried ?gate) = [77/2, 41]"
    by (simp add: rounds_tried_def gate_timeout_def exact_def)
  note probe = stale_lock_probe [OF run worker rounds]
  have gate_name: "stale_gate ''TEST_LOCK'' = ''TEST_LOCK_STALE''"
    by (simp add: stale_gate_def)
  have gate_timeouts: "acquire_timeouts ''TEST_LOCK_STALE'' ?ops = [77/2, 41]"
    using probe [THEN conjunct2, THEN conjunct2, THEN conjunct1]
    unfolding long gate_name .
  have one: "acquire_timeouts ''TEST_LOCK'' ?ops = [20]"
    using probe [THEN conjunct2, THEN conjunct2, THEN conjunct2, THEN conjunct1] .
  show ?thesis using run tried gate_timeouts one by blast
qed

text \<open>
  C7 as stated fails: on 4 workers with the default base time of 20 seconds, the attempt
  on the guarded lock has the timeout 20, below every long timeout (36 at least); the
  long timeout, 41 in this run, is the one of the gate.
\<close>

theorem guarded_lock_tried_with_base_time:
  "check_stale_lock exact 4 0 ''TEST_LOCK'' 20 False [(1/2, Acquired)] LockTimeout True
     = Some (stale_run, None)
   \<and> acquire_timeouts ''TEST_LOCK'' stale_run = [20]
   \<and> acquire_timeouts ''TEST_LOCK_STALE'' stale_run = [gate_timeout exact 20 4 (1/2)]
   \<and> (20 :: real) < gate_timeout exact 20 4 0"
  by (simp add: check_stale_lock_def worker_number_def probe_lock_def stale_gate_def
      gate_timeout_def stale_run_def exact_def)

section \<open>Entries without a journal record\<close>

text \<open>
  C9. When the journal has no entry for a key, the age of the entry is the maximum
  cache age plus one, \<^verbatim>\<open>_test_cache_valid\<close> returns false whether or not a data file or
  an error marker exists, and \<^verbatim>\<open>_get_data\<close> goes through the update instead of reading
  the data file: it sends a request, and what it returns is the answer of the remote.
  On a 200 it returns the document received, which replaces the data file; on a failed
  connection it raises \<^verbatim>\<open>GithubError\<close>.
\<close>

theorem unjournaled_entry_refetched:
  assumes "py_in k (journal c) = Inr False"
  shows "cache_age e (journal c) k = Inr (maximum_cache_age e + 1)
       \<and> snd (test_cache_valid e c k) = Inr False
       \<and> get_data e c k = update_cache e (read_metadata c) k
       \<and> requests (fst (get_data e c k)) = Suc (requests c)
       \<and> (\<forall>p. network e (requests c) = Response 200 (Some p) \<longrightarrow>
             snd (get_data e c k) = Inr p
             \<and> (k = ''METADATA'' \<or> files (fst (get_data e c k)) k = Some (Json p)))
       \<and> (network e (requests c) = NoConnection \<longrightarrow> snd (get_data e c k) = Inl GithubError)"
proof -
  have age: "cache_age e (cache_time (read_metadata c)) k = Inr (maximum_cache_age e + 1)"
    using assms by (simp add: cache_age_def journal_def)
  have valid: "test_cache_valid e c k = (read_metadata c, Inr False)"
    by (simp add: test_cache_valid_def Let_def age)
  have upd: "get_data e c k = update_cache e (read_metadata c) k"
    using valid by (simp add: get_data_def)
  have ok: "\<forall>p. network e (requests c) = Response 200 (Some p) \<longrightarrow>
      snd (get_data e c k) = Inr p
      \<and> (k = ''METADATA'' \<or> files (fst (get_data e c k)) k = Some (Json p))"
    by (auto simp: upd update_cache_def Let_def save_metadata_def requests_read_metadata
        split: sum.splits)
  have down: "network e (requests c) = NoConnection \<longrightarrow> snd (get_data e c k) = Inl GithubError"
    by (simp add: upd update_cache_def Let_def requests_read_metadata)
  show ?thesis
    using age valid upd ok down
    by (simp add: journal_def requests_update_cache requests_read_metadata)
qed

theorem unjournaled_entry_refetched_witness:
  "py_in ''readme'' (journal unjournaled_cache) = Inr False
   \<and> files unjournaled_cache ''readme'' = Some (Json repository_payload)
   \<and> repository_payload \<noteq> readme_payload
   \<and> snd (test_cache_valid (env_at 100 (always readme_response)) unjournaled_cache ''readme'')
       = Inr False
   \<and> requests (fst (get_data (env_at 100 (always readme_response)) unjournaled_cache ''readme''))
       = Suc (requests unjournaled_cache)
   \<and> snd (get_data (env_at 100 (always readme_response)) unjournaled_cache ''readme'')
       = Inr readme_payload
   \<and> files (fst (get_data (env_at 100 (always readme_response)) unjournaled_cache ''readme''))
       ''readme'' = Some (Json readme_payload)
   \<and> snd (get_data (env_at 100 (always NoConnection)) unjournaled_cache ''readme'')
       = Inl GithubError"
proof -
  have absent: "py_in ''readme'' (journal unjournaled_cache) = Inr False"
    by (simp add: journal_def read_metadata_def unjournaled_cache_def)
  have there: "files unjournaled_cache ''readme'' = Some (Json repository_payload)"
    by (simp add: unjournaled_cache_def)
  have other: "repository_payload \<noteq> readme_payload"
    by (simp add: repository_payload_def readme_payload_def)
  have remote: "network (env_at 100 (always readme_response)) (requests unjournaled_cache)
      = Response 200 (Some readme_payload)"
    by (simp add: env_at_def always_def readme_response_def)
  have down: "network (env_at 100 (always NoConnection)) (requests unjournaled_cache)
      = NoConnection"
    by (simp add: env_at_def always_def)
  have key: "''readme'' \<noteq> ''METADATA''" by simp
  note refetch = unjournaled_entry_refetched [OF absent, of "env_at 100 (always readme_response)"]
  note failed = unjournaled_entry_refetched [OF absent, of "env_at 100 (always NoConnection)"]
  have invalid: "snd (test_cache_valid (env_at 100 (always readme_response)) unjournaled_cache
      ''readme'') = Inr False"
    using refetch by blast
  have sent: "requests (fst (get_data (env_at 100 (always readme_response)) unjournaled_cache
      ''readme'')) = Suc (requests unjournaled_cache)"
    using refetch by blast
  have got: "snd (get_data (env_at 100 (always readme_response)) unjournaled_cache ''readme'')
      = Inr readme_payload"
    using refetch remote by blast
  have stored: "files (fst (get_data (env_at 100 (always readme_response)) unjournaled_cache
      ''readme'')) ''readme'' = Some (Json readme_payload)"
    using refetch remote key by blast
  have raised: "snd (get_data (env_at 100 (always NoConnection)) unjournaled_cache ''readme'')
      = Inl GithubError"
    using failed down by blast
  show ?thesis using absent there other invalid sent got stored raised by blast
qed

section \<open>The batch scheduler on an empty input\<close>

text \<open>
  C10. On an empty input list \<^verbatim>\<open>batch\<close> returns the empty list at once: it creates no
  queue and no process, and logs nothing.
\<close>

theorem batch_empty_input:
  "batch cpu_count number_worker w [] = ([], [])"
  by (simp add: batch_def)

end
